theory Spec2Isabelle
  imports Complex_Main
begin

section \<open>Tables\<close>

text \<open>
  The demo applications keep their data in a pandas \<^verbatim>\<open>DataFrame\<close> built from a dict of
  columns. A cell is a string, an integer, a float or a timestamp; the floats of the sample
  data are decimal literals that the filters never compute with, so they are kept as exact
  rationals, and no sample column holds a timestamp. The row labels of a frame
  (\<^verbatim>\<open>df.index\<close>) are integers.
\<close>

datatype cell = StrV string | IntV int | FloatV rat | DateV int

datatype py_error =
    KeyError string
  | LabelError "int list"
  | ValueError

record dataframe =
  index :: "int list"
  columns :: "(string \<times> cell list) list"

text \<open>
  \<^verbatim>\<open>pd.DataFrame(data)\<close>: the columns of the dict must all have one length (pandas raises
  \<^verbatim>\<open>ValueError\<close> otherwise), and the rows are labelled \<^verbatim>\<open>0 .. n-1\<close>.
\<close>

definition DataFrame :: "(string \<times> cell list) list \<Rightarrow> py_error + dataframe" where
  "DataFrame d =
     (case d of
        [] \<Rightarrow> Inr \<lparr>index = [], columns = []\<rparr>
      | (c, vs) # rest \<Rightarrow>
          if list_all (\<lambda>(c', vs'). length vs' = length vs) rest
          then Inr \<lparr>index = map int [0..<length vs], columns = d\<rparr>
          else Inl ValueError)"

text \<open>\<^verbatim>\<open>df[c]\<close>: the values of column \<^verbatim>\<open>c\<close>, or \<^verbatim>\<open>KeyError\<close>.\<close>

definition getitem :: "dataframe \<Rightarrow> string \<Rightarrow> py_error + cell list" where
  "getitem df c =
     (case map_of (columns df) c of None \<Rightarrow> Inl (KeyError c) | Some vs \<Rightarrow> Inr vs)"

text \<open>\<^verbatim>\<open>series.isin(values)\<close>: one boolean per row.\<close>

definition isin :: "cell list \<Rightarrow> cell list \<Rightarrow> bool list" where
  "isin vs sel = map (\<lambda>v. v \<in> set sel) vs"

text \<open>Keeping the entries of a sequence at which a boolean mask is true.\<close>

definition select :: "bool list \<Rightarrow> 'a list \<Rightarrow> 'a list" where
  "select bs xs = map snd (filter fst (zip bs xs))"

text \<open>\<^verbatim>\<open>df.loc[mask]\<close> with a boolean mask: a new frame holding the rows whose mask is true.\<close>

definition loc_mask :: "dataframe \<Rightarrow> bool list \<Rightarrow> dataframe" where
  "loc_mask df bs =
     \<lparr>index = select bs (index df),
      columns = map (\<lambda>(c, vs). (c, select bs vs)) (columns df)\<rparr>"


text \<open>
  The invariant of a table: the row labels are unique, the column names are unique (they
  are the keys of a dict), and every column is as long as the index (pandas keeps this for
  every frame).
\<close>

definition wf_frame :: "dataframe \<Rightarrow> bool" where
  "wf_frame df \<longleftrightarrow>
     distinct (index df) \<and> distinct (map fst (columns df)) \<and>
     list_all (\<lambda>(c, vs). length vs = length (index df)) (columns df)"

section \<open>Python sets of row labels\<close>

text \<open>
  A Python \<^verbatim>\<open>set\<close> is kept as a list without duplicates. The order in which Python
  iterates over a set is not specified, so \<^verbatim>\<open>list(idx)\<close> is one list of the elements
  among many; the properties below speak about its elements and their distinctness only.
\<close>

definition py_set :: "int list \<Rightarrow> int list" where
  "py_set xs = remdups xs"

definition intersection :: "int list \<Rightarrow> int list \<Rightarrow> int list" where
  "intersection a b = filter (\<lambda>x. x \<in> set b) a"

definition py_list :: "int list \<Rightarrow> int list" where
  "py_list s = s"

section \<open>The index combiner of \<^verbatim>\<open>app-010-030-filter_index.py\<close>\<close>

text \<open>
  \<^verbatim>\<open>filter_idx\<close> reads the table and the two selectize inputs. A selectize input with
  \<^verbatim>\<open>multiple=True\<close> holds the tuple of the chosen strings, which is falsy when empty.
\<close>

definition filter_idx :: "dataframe \<Rightarrow> string list \<Rightarrow> string list \<Rightarrow> py_error + int list" where
  "filter_idx df filter_day filter_time =
     (let idx = py_set (index df) in
      case (if filter_day \<noteq> [] then
              (case getitem df ''day'' of
                 Inl e \<Rightarrow> Inl e
               | Inr col \<Rightarrow>
                   let current_idx = index (loc_mask df (isin col (map StrV filter_day)))
                   in Inr (intersection idx (py_set current_idx)))
            else Inr idx) of
        Inl e \<Rightarrow> Inl e
      | Inr idx \<Rightarrow>
         (case (if filter_time \<noteq> [] then
                  (case getitem df ''time'' of
                     Inl e \<Rightarrow> Inl e
                   | Inr col \<Rightarrow>
                       let current_idx = index (loc_mask df (isin col (map StrV filter_time)))
                       in Inr (intersection idx (py_set current_idx)))
                else Inr idx) of
            Inl e \<Rightarrow> Inl e
          | Inr idx \<Rightarrow> Inr (py_list idx)))"


section \<open>The sequential scan of \<^verbatim>\<open>app-0010-010-2_filters.py\<close>\<close>

text \<open>\<^verbatim>\<open>data_filtered\<close>: the frame is narrowed column by column.\<close>

definition data_filtered :: "dataframe \<Rightarrow> string list \<Rightarrow> string list \<Rightarrow> py_error + dataframe" where
  "data_filtered tips filter_day filter_time =
     (let df = tips in
      case (if filter_day \<noteq> [] then
              (case getitem df ''day'' of
                 Inl e \<Rightarrow> Inl e
               | Inr col \<Rightarrow> Inr (loc_mask df (isin col (map StrV filter_day))))
            else Inr df) of
        Inl e \<Rightarrow> Inl e
      | Inr df \<Rightarrow>
         (case (if filter_time \<noteq> [] then
                  (case getitem df ''time'' of
                     Inl e \<Rightarrow> Inl e
                   | Inr col \<Rightarrow> Inr (loc_mask df (isin col (map StrV filter_time))))
                else Inr df) of
            Inl e \<Rightarrow> Inl e
          | Inr df \<Rightarrow> Inr df))"


section \<open>The sample tables\<close>

text \<open>The five rows of \<^verbatim>\<open>data\<close> in \<^verbatim>\<open>app-0010-010-2_filters.py\<close>.\<close>

definition data :: "(string \<times> cell list) list" where
  "data =
     [(''total_bill'', [FloatV (1699/100), FloatV (1034/100), FloatV (2101/100),
                        FloatV (2368/100), FloatV (2459/100)]),
      (''tip'', [FloatV (101/100), FloatV (166/100), FloatV (350/100),
                 FloatV (331/100), FloatV (361/100)]),
      (''sex'', [StrV ''Female'', StrV ''Male'', StrV ''Male'', StrV ''Male'', StrV ''Female'']),
      (''smoker'', [StrV ''No'', StrV ''No'', StrV ''No'', StrV ''No'', StrV ''Yes'']),
      (''day'', [StrV ''Sun'', StrV ''Sun'', StrV ''Sun'', StrV ''Fri'', StrV ''Sun'']),
      (''time'', [StrV ''Lunch'', StrV ''Dinner'', StrV ''Dinner'', StrV ''Dinner'',
                  StrV ''Dinner'']),
      (''size'', [IntV 2, IntV 3, IntV 3, IntV 2, IntV 4])]"

definition tips :: dataframe where
  "tips = \<lparr>index = [0, 1, 2, 3, 4], columns = data\<rparr>"

text \<open>The ten rows of \<^verbatim>\<open>df_tips\<close> in \<^verbatim>\<open>app-010-030-filter_index.py\<close>.\<close>

definition df_tips_data :: "(string \<times> cell list) list" where
  "df_tips_data =
     [(''total_bill'', [FloatV (1699/100), FloatV (1034/100), FloatV (2101/100),
                        FloatV (2368/100), FloatV (2459/100), FloatV (2529/100),
                        FloatV (877/100), FloatV (2688/100), FloatV (1504/100),
                        FloatV (1478/100)]),
      (''tip'', [FloatV (101/100), FloatV (166/100), FloatV (350/100), FloatV (331/100),
                 FloatV (361/100), FloatV (471/100), FloatV (200/100), FloatV (312/100),
                 FloatV (352/100), FloatV (300/100)]),
      (''sex'', [StrV ''Female'', StrV ''Male'', StrV ''Male'', StrV ''Male'', StrV ''Female'',
                 StrV ''Male'', StrV ''Male'', StrV ''Male'', StrV ''Male'', StrV ''Female'']),
      (''smoker'', [StrV ''No'', StrV ''No'', StrV ''No'', StrV ''No'', StrV ''Yes'',
                    StrV ''No'', StrV ''No'', StrV ''Yes'', StrV ''No'', StrV ''Yes'']),
      (''day'', [StrV ''Sun'', StrV ''Fri'', StrV ''Sun'', StrV ''Thu'', StrV ''Sun'',
                 StrV ''Sun'', StrV ''Sat'', StrV ''Sat'', StrV ''Sat'', StrV ''Sat'']),
      (''time'', [StrV ''Dinner'', StrV ''Dinner'', StrV ''Lunch'', StrV ''Dinner'',
                  StrV ''Lunch'', StrV ''Dinner'', StrV ''Lunch'', StrV ''Dinner'',
                  StrV ''Lunch'', StrV ''Dinner'']),
      (''size'', [IntV 2, IntV 3, IntV 3, IntV 2, IntV 4, IntV 4, IntV 2, IntV 4, IntV 2,
                  IntV 2])]"

definition df_tips :: dataframe where
  "df_tips = \<lparr>index = [0, 1, 2, 3, 4, 5, 6, 7, 8, 9], columns = df_tips_data\<rparr>"

section \<open>One narrowing step\<close>

text \<open>
  The two \<^verbatim>\<open>if\<close> blocks of \<^verbatim>\<open>filter_idx\<close> differ in the column they read only.
  \<open>narrow\<close> is one such block, for any column: with an empty selection the running
  set is kept, otherwise it is intersected with the labels of the rows the column's
  predicate matches.
\<close>

definition narrow :: "dataframe \<Rightarrow> string \<Rightarrow> string list \<Rightarrow> int list \<Rightarrow> py_error + int list" where
  "narrow df c sel idx =
     (if sel \<noteq> [] then
        (case getitem df c of
           Inl e \<Rightarrow> Inl e
         | Inr col \<Rightarrow>
             let current_idx = index (loc_mask df (isin col (map StrV sel)))
             in Inr (intersection idx (py_set current_idx)))
      else Inr idx)"

text \<open>Running one computation after another, an exception ending the run.\<close>

definition and_then :: "py_error + 'a \<Rightarrow> ('a \<Rightarrow> py_error + 'b) \<Rightarrow> py_error + 'b" where
  "and_then r f = (case r of Inl e \<Rightarrow> Inl e | Inr x \<Rightarrow> f x)"


section \<open>The index combiner of \<^verbatim>\<open>pandas_hints.py\<close>\<close>


section \<open>A session of the application\<close>






section \<open>The adaptive filter engine\<close>

text \<open>
  The applications under \<^verbatim>\<open>app/app-adaptive_filters\<close> import the package
  \<^verbatim>\<open>shiny_adaptive_filter\<close> and call its \<^verbatim>\<open>filter_server\<close>, which returns the
  reactive \<^verbatim>\<open>filter_idx\<close> and the \<^verbatim>\<open>reset_all\<close> handle. The package's code is not
  among the sources; only these calls and the override dicts are. The definitions of this
  section follow the design document instead.
\<close>

text \<open>Modelled from the spec: the kind of a column (section 3, ColumnSpec); the profiler
  of \<^verbatim>\<open>shiny_adaptive_filter\<close> is missing.\<close>

datatype col_kind = Categorical | Numeric | Datetime

text \<open>Modelled from the spec: ColumnSpec = {name, inferred kind, cardinality} (section 3);
  the profiler of \<^verbatim>\<open>shiny_adaptive_filter\<close> is missing.\<close>

record column_spec =
  cs_name :: string
  cs_kind :: col_kind
  cs_cardinality :: nat

text \<open>Modelled from the spec: the filter kinds named in section 3 (FilterKind); the
  filter classes of \<^verbatim>\<open>shiny_adaptive_filter\<close> are missing.\<close>

datatype filter_kind =
  CategoricalCheckbox | CategoricalSelect | NumericRange | NumericSlider | DateRange

text \<open>Modelled from the spec: FilterOverride (section 3): disable, use-default,
  replace-with(FilterKind, params) where the parameters are an optional label, and
  relabel(text); the override handling of \<^verbatim>\<open>filter_server\<close> is missing.\<close>

datatype filter_override =
  Disable | UseDefault | ReplaceWith filter_kind "string option" | Relabel string

text \<open>Modelled from the spec: WidgetSpec, a description of a filter control (kind, label) for
  one column (glossary); the widget classes of \<^verbatim>\<open>shiny_adaptive_filter\<close> are missing.\<close>

record widget_spec =
  ws_column :: string
  ws_kind :: filter_kind
  ws_label :: string

text \<open>Modelled from the spec: the error taxonomy of section 7; the error reporting of
  \<^verbatim>\<open>filter_server\<close> is missing.\<close>

datatype config_issue = ConfigurationError string | UnknownColumnOverride string

text \<open>Modelled from the spec: the classification rules of the Column Profiler (section 4.1):
  numeric dtype gives numeric, datetime dtype gives datetime, text and anything that cannot
  be classified gives categorical; the profiler of \<^verbatim>\<open>shiny_adaptive_filter\<close> is missing.\<close>

definition infer_kind :: "cell list \<Rightarrow> col_kind" where
  "infer_kind vs =
     (if vs \<noteq> [] \<and> list_all (\<lambda>v. case v of IntV _ \<Rightarrow> True | FloatV _ \<Rightarrow> True | _ \<Rightarrow> False) vs
      then Numeric
      else if vs \<noteq> [] \<and> list_all (\<lambda>v. case v of DateV _ \<Rightarrow> True | _ \<Rightarrow> False) vs
      then Datetime
      else Categorical)"

text \<open>Modelled from the spec: \<^verbatim>\<open>infer(table)\<close> of the Column Profiler (section 4.1), one
  ColumnSpec per column; the profiler of \<^verbatim>\<open>shiny_adaptive_filter\<close> is missing.\<close>

definition infer :: "dataframe \<Rightarrow> column_spec list" where
  "infer t =
     map (\<lambda>(c, vs). \<lparr>cs_name = c, cs_kind = infer_kind vs,
                     cs_cardinality = length (remdups vs)\<rparr>) (columns t)"

text \<open>Modelled from the spec: the default widget of a kind (section 4.2): categorical gives
  multi-select, numeric gives range, datetime gives range; the registry of
  \<^verbatim>\<open>shiny_adaptive_filter\<close> is missing.\<close>

fun default_widget :: "col_kind \<Rightarrow> filter_kind" where
  "default_widget Categorical = CategoricalSelect"
| "default_widget Numeric = NumericRange"
| "default_widget Datetime = DateRange"

text \<open>Modelled from the spec: \<^verbatim>\<open>resolve(columnSpec, override)\<close> of the Filter Widget
  Registry (section 4.2), a configuration error for a numeric filter kind on a non-numeric
  column; the registry of \<^verbatim>\<open>shiny_adaptive_filter\<close> is missing.\<close>

fun resolve :: "column_spec \<Rightarrow> filter_override option \<Rightarrow> config_issue + widget_spec option" where
  "resolve cs (Some Disable) = Inr None"
| "resolve cs (Some UseDefault) =
     Inr (Some \<lparr>ws_column = cs_name cs, ws_kind = default_widget (cs_kind cs),
                ws_label = cs_name cs\<rparr>)"
| "resolve cs None =
     Inr (Some \<lparr>ws_column = cs_name cs, ws_kind = default_widget (cs_kind cs),
                ws_label = cs_name cs\<rparr>)"
| "resolve cs (Some (ReplaceWith k params)) =
     (if (k = NumericRange \<or> k = NumericSlider) \<and> cs_kind cs \<noteq> Numeric
      then Inl (ConfigurationError (cs_name cs))
      else Inr (Some \<lparr>ws_column = cs_name cs, ws_kind = k,
                      ws_label = (case params of None \<Rightarrow> cs_name cs | Some l \<Rightarrow> l)\<rparr>))"
| "resolve cs (Some (Relabel l)) =
     Inr (Some \<lparr>ws_column = cs_name cs, ws_kind = default_widget (cs_kind cs), ws_label = l\<rparr>)"

text \<open>Modelled from the spec: one step of the Index Combiner (section 4.4): a column with
  default state (here: no entry in the state store) contributes no constraint, a column
  with an active state intersects the rows its predicate matches into the running set.
  The predicate \<^verbatim>\<open>matches(value, widgetState)\<close> of each filter kind is a parameter, the
  spec naming its type only; the combiner of \<^verbatim>\<open>shiny_adaptive_filter\<close> is missing.\<close>

definition constrain ::
  "(filter_kind \<Rightarrow> cell \<Rightarrow> cell list \<Rightarrow> bool) \<Rightarrow> dataframe \<Rightarrow> (string \<rightharpoonup> cell list) \<Rightarrow>
   widget_spec \<Rightarrow> int set \<Rightarrow> int set" where
  "constrain matches t widgetStates w acc =
     (case widgetStates (ws_column w) of
        None \<Rightarrow> acc
      | Some st \<Rightarrow>
          (case map_of (columns t) (ws_column w) of
             None \<Rightarrow> acc
           | Some vs \<Rightarrow> acc \<inter> set (select (map (\<lambda>v. matches (ws_kind w) v st) vs) (index t))))"

text \<open>Modelled from the spec: \<^verbatim>\<open>combine(table, widgetStates, widgetSpecs)\<close> of the Index
  Combiner (section 4.4): start with the full set of row identifiers and intersect in each
  column that has a widget; a disabled column has no widget spec and is skipped; the
  combiner of \<^verbatim>\<open>shiny_adaptive_filter\<close> is missing.\<close>

definition combine ::
  "(filter_kind \<Rightarrow> cell \<Rightarrow> cell list \<Rightarrow> bool) \<Rightarrow> dataframe \<Rightarrow> (string \<rightharpoonup> cell list) \<Rightarrow>
   widget_spec list \<Rightarrow> int set" where
  "combine matches t widgetStates widgetSpecs =
     fold (constrain matches t widgetStates) widgetSpecs (set (index t))"

text \<open>Modelled from the spec: the Adaptive Filter Facade (section 4.5) with the Filter State
  Store it owns (section 4.3): the table, the override map, the widget specs, the reported
  issues and the current widget state of each column, absent meaning default; the object
  \<^verbatim>\<open>filter_server\<close> returns is missing.\<close>

record facade =
  f_table :: dataframe
  f_overrides :: "(string \<times> filter_override) list"
  widgets :: "widget_spec list"
  issues :: "config_issue list"
  states :: "string \<rightharpoonup> cell list"

text \<open>Modelled from the spec: \<^verbatim>\<open>create(table, overrides)\<close> (section 4.5): profiler, then
  registry per column; a column whose override is disable or raises a configuration error
  gets no widget, an override for a column the table lacks is reported and ignored
  (section 7), every widget state starts at default; \<^verbatim>\<open>filter_server\<close> is missing.\<close>

definition create :: "dataframe \<Rightarrow> (string \<times> filter_override) list \<Rightarrow> facade" where
  "create t overrides =
     (let resolved = map (\<lambda>cs. resolve cs (map_of overrides (cs_name cs))) (infer t) in
      \<lparr>f_table = t,
       f_overrides = overrides,
       widgets = List.map_filter (\<lambda>r. case r of Inr (Some w) \<Rightarrow> Some w | _ \<Rightarrow> None) resolved,
       issues = List.map_filter (\<lambda>r. case r of Inl e \<Rightarrow> Some e | _ \<Rightarrow> None) resolved @
                map UnknownColumnOverride
                  (filter (\<lambda>c. c \<notin> set (map fst (columns t))) (map fst overrides)),
       states = Map.empty\<rparr>)"

text \<open>Modelled from the spec: the reactive value \<^verbatim>\<open>filterIndex\<close> of the facade (section
  4.5), the combiner applied to the current state; \<^verbatim>\<open>filter_idx\<close> of
  \<^verbatim>\<open>filter_server\<close> is missing.\<close>

definition filterIndex :: "(filter_kind \<Rightarrow> cell \<Rightarrow> cell list \<Rightarrow> bool) \<Rightarrow> facade \<Rightarrow> int set" where
  "filterIndex matches f = combine matches (f_table f) (states f) (widgets f)"

text \<open>Modelled from the spec: \<^verbatim>\<open>set(column, value)\<close> of the Filter State Store (section
  4.3), \<open>None\<close> being the default value; the state store of \<^verbatim>\<open>filter_server\<close> is
  missing.\<close>

definition set_state :: "facade \<Rightarrow> string \<Rightarrow> cell list option \<Rightarrow> facade" where
  "set_state f c v = f\<lparr>states := (states f)(c := v)\<rparr>"

text \<open>Modelled from the spec: \<^verbatim>\<open>resetAll()\<close> (sections 4.3 and 4.5): every column's widget
  state goes back to default in one update; \<^verbatim>\<open>reset_all\<close> of \<^verbatim>\<open>filter_server\<close> is
  missing.\<close>

definition resetAll :: "facade \<Rightarrow> facade" where
  "resetAll f = f\<lparr>states := Map.empty\<rparr>"

text \<open>The override dicts of \<^verbatim>\<open>app-030-overrides.py\<close>, \<^verbatim>\<open>app-0010-030-overrides.py\<close> and
  \<^verbatim>\<open>app-040-reset.py\<close>: \<^verbatim>\<open>None\<close> disables a column, a string relabels it, a filter
  object replaces its filter.\<close>

definition override_030 :: "(string \<times> filter_override) list" where
  "override_030 =
     [(''total_bill'', Disable),
      (''tips'', ReplaceWith NumericRange None),
      (''day'', Relabel ''Day of Week''),
      (''size'', ReplaceWith CategoricalCheckbox (Some ''Party Size''))]"

definition override_0010_030 :: "(string \<times> filter_override) list" where
  "override_0010_030 = [(''total_bill'', Disable), (''tip'', Disable)]"

definition override_040 :: "(string \<times> filter_override) list" where
  "override_040 =
     [(''total_bill'', ReplaceWith NumericRange None), (''tip'', ReplaceWith NumericRange None)]"

section \<open>Basic facts\<close>

lemma tips_is_DataFrame: "DataFrame data = Inr tips"
  by (simp add: DataFrame_def data_def tips_def upt_rec)

lemma df_tips_is_DataFrame: "DataFrame df_tips_data = Inr df_tips"
  by (simp add: DataFrame_def df_tips_data_def df_tips_def upt_rec)

lemma set_py_set: "set (py_set xs) = set xs"
  by (simp add: py_set_def)


lemma set_intersection: "set (intersection a b) = set a \<inter> set b"
  by (auto simp: intersection_def)

lemma distinct_intersection: "distinct a \<Longrightarrow> distinct (intersection a b)"
  by (simp add: intersection_def)

lemma select_Nil: "select [] xs = []" "select bs [] = []"
  by (simp_all add: select_def)

lemma select_Cons: "select (b # bs) (x # xs) = (if b then x # select bs xs else select bs xs)"
  by (simp add: select_def)

lemma set_select_subset: "set (select bs xs) \<subseteq> set xs"
  unfolding select_def by (auto dest: set_zip_rightD)

lemma distinct_select: "distinct xs \<Longrightarrow> distinct (select bs xs)"
proof (induction xs arbitrary: bs)
  case Nil
  then show ?case by (simp add: select_Nil)
next
  case (Cons x xs)
  show ?case
  proof (cases bs)
    case Nil
    then show ?thesis by (simp add: select_Nil)
  next
    case (Cons b bs')
    with Cons.prems Cons.IH [of bs'] set_select_subset [of bs' xs] show ?thesis
      by (auto simp: select_Cons)
  qed
qed

lemma index_loc_mask: "index (loc_mask df bs) = select bs (index df)"
  by (simp add: loc_mask_def)

lemma getitem_loc_mask:
  "getitem (loc_mask df bs) c =
     (case getitem df c of Inl e \<Rightarrow> Inl e | Inr vs \<Rightarrow> Inr (select bs vs))"
proof -
  have "map_of (map (\<lambda>(c, vs). (c, select bs vs)) al) c = map_option (select bs) (map_of al c)"
    for al :: "(string \<times> cell list) list"
    by (induction al) auto
  then show ?thesis
    by (simp add: getitem_def loc_mask_def split: option.splits)
qed

lemma select_isin_select:
  "length bs = length xs \<Longrightarrow> length vs = length xs \<Longrightarrow>
   select (isin (select bs vs) sel) (select bs xs) =
   select (map (\<lambda>(b, v). b \<and> v \<in> set sel) (zip bs vs)) xs"
proof (induction xs arbitrary: bs vs)
  case Nil
  then show ?case by (simp add: select_Nil isin_def)
next
  case (Cons x xs)
  from Cons.prems obtain b bs' v vs' where [simp]: "bs = b # bs'" "vs = v # vs'"
    by (cases bs; cases vs) auto
  from Cons.prems Cons.IH [of bs' vs'] show ?case
    by (simp add: select_Cons isin_def)
qed

lemma set_select_conj:
  "distinct xs \<Longrightarrow> length bs = length xs \<Longrightarrow> length vs = length xs \<Longrightarrow>
   set (select (map (\<lambda>(b, v). b \<and> P v) (zip bs vs)) xs) =
   set (select bs xs) \<inter> set (select (map P vs) xs)"
proof (induction xs arbitrary: bs vs)
  case Nil
  then show ?case by (simp add: select_Nil)
next
  case (Cons x xs)
  from Cons.prems obtain b bs' v vs' where [simp]: "bs = b # bs'" "vs = v # vs'"
    by (cases bs; cases vs) auto
  from Cons.prems have IH: "set (select (map (\<lambda>(b, v). b \<and> P v) (zip bs' vs')) xs) =
   set (select bs' xs) \<inter> set (select (map P vs') xs)"
    by (intro Cons.IH) auto
  from Cons.prems have "x \<notin> set (select bs' xs)" "x \<notin> set (select (map P vs') xs)"
    using set_select_subset [of bs' xs] set_select_subset [of "map P vs'" xs] by auto
  with IH show ?case by (auto simp: select_Cons)
qed

lemma wf_getitem_length:
  "wf_frame df \<Longrightarrow> getitem df c = Inr vs \<Longrightarrow> length vs = length (index df)"
  by (auto simp: wf_frame_def getitem_def list_all_iff split: option.splits dest!: map_of_SomeD)


lemma narrow_Inr:
  "narrow df c sel idx = Inr ys \<Longrightarrow> set ys \<subseteq> set idx \<and> (distinct idx \<longrightarrow> distinct ys)"
  by (auto simp: narrow_def Let_def set_intersection distinct_intersection
        split: if_splits sum.splits)

lemma filter_idx_narrow:
  "filter_idx df fd ft =
     and_then (narrow df ''day'' fd (py_set (index df)))
       (\<lambda>idx. and_then (narrow df ''time'' ft idx) (\<lambda>idx. Inr (py_list idx)))"
  by (simp add: filter_idx_def narrow_def and_then_def Let_def split: sum.splits)


lemma wf_tips: "wf_frame tips"
  by (simp add: wf_frame_def tips_def data_def)

lemma wf_df_tips: "wf_frame df_tips"
  by (simp add: wf_frame_def df_tips_def df_tips_data_def)

lemma getitem_tips:
  "getitem tips ''day'' = Inr [StrV ''Sun'', StrV ''Sun'', StrV ''Sun'', StrV ''Fri'', StrV ''Sun'']"
  "getitem tips ''time'' =
     Inr [StrV ''Lunch'', StrV ''Dinner'', StrV ''Dinner'', StrV ''Dinner'', StrV ''Dinner'']"
  by (simp_all add: getitem_def tips_def data_def)

lemma DataFrame_wf:
  assumes "DataFrame d = Inr df" and "distinct (map fst d)"
  shows "wf_frame df"
proof (cases d)
  case Nil
  with assms show ?thesis by (auto simp: DataFrame_def wf_frame_def)
next
  case (Cons p rest)
  obtain c vs where p: "p = (c, vs)" by (cases p)
  from assms(1) Cons p have ok: "list_all (\<lambda>(c', vs'). length vs' = length vs) rest"
    and df: "df = \<lparr>index = map int [0..<length vs], columns = d\<rparr>"
    by (auto simp: DataFrame_def split: if_splits)
  have "distinct (map int [0..<length vs])"
    by (simp add: distinct_map)
  with ok df assms(2) Cons p show ?thesis
    by (simp add: wf_frame_def)
qed


lemma narrow_commute:
  "map_sum (\<lambda>e. ()) set (and_then (narrow df a sa idx) (narrow df b sb)) =
   map_sum (\<lambda>e. ()) set (and_then (narrow df b sb idx) (narrow df a sa))"
  by (cases "getitem df a"; cases "getitem df b")
     (auto simp: narrow_def and_then_def Let_def set_intersection)





lemma combine_default: "fold (constrain m t Map.empty) ws acc = acc"
  by (induction ws arbitrary: acc) (simp_all add: constrain_def)

lemma in_map_filterD:
  "y \<in> set (List.map_filter g xs) \<Longrightarrow> \<exists>x \<in> set xs. g x = Some y"
  by (induction xs) (auto split: option.splits)

lemma disabled_no_widget:
  assumes "map_of overrides c = Some Disable"
    and "w \<in> set (widgets (create t overrides))"
  shows "ws_column w \<noteq> c"
proof
  assume c: "ws_column w = c"
  from assms(2) obtain cs where
    r: "resolve cs (map_of overrides (cs_name cs)) = Inr (Some w)"
    by (auto simp: create_def Let_def dest!: in_map_filterD split: sum.splits option.splits)
  then have "ws_column w = cs_name cs"
    by (cases "(cs, map_of overrides (cs_name cs))" rule: resolve.cases)
       (auto split: if_splits)
  with c r assms(1) show False by simp
qed

lemma fold_constrain_cong:
  assumes "\<And>w. w \<in> set ws \<Longrightarrow> ws_column w \<noteq> c"
  shows "fold (constrain m t (st(c := s1))) ws acc = fold (constrain m t (st(c := s2))) ws acc"
  using assms
  by (induction ws arbitrary: acc) (simp_all add: constrain_def)

section \<open>C1: intersecting matched index sets against the sequential scan\<close>

text \<open>
  Claim C1. For every table (row labels unique, every column as long as the index), the
  labels that \<^verbatim>\<open>filter_idx\<close> returns, starting from all row labels and intersecting in
  the matched labels of each active filter, are exactly the labels of the rows that the
  column-by-column scan of \<^verbatim>\<open>data_filtered\<close> keeps; the two also raise the same error
  when a column that an active filter reads is missing. A row being identified by its
  label, the two select the same set of rows.
\<close>

theorem intersection_equals_scan: 
  assumes "wf_frame df"
  shows "map_sum id set (filter_idx df fd ft) =
         map_sum id (\<lambda>d. set (index d)) (data_filtered df fd ft)"
proof -
  have len: "length vs = length (index df)" if "getitem df c = Inr vs" for c vs
    using assms that by (rule wf_getitem_length)
  have dist: "distinct (index df)" using assms by (simp add: wf_frame_def)
  have sub: "set (select bs (index df)) \<subseteq> set (index df)" for bs
    by (rule set_select_subset)
  show ?thesis
  proof (cases "getitem df ''day''"; cases "getitem df ''time''")
    fix dc tc assume g: "getitem df ''day'' = Inr dc" "getitem df ''time'' = Inr tc"
    have l: "length dc = length (index df)" "length tc = length (index df)"
      using g len by auto
    have "set (select (isin (select (isin dc sel) tc) sel') (select (isin dc sel) (index df))) =
          set (select (isin dc sel) (index df)) \<inter> set (select (isin tc sel') (index df))"
      for sel sel'
      using set_select_conj [OF dist, of "isin dc sel" tc "\<lambda>v. v \<in> set sel'"] l
            select_isin_select [of "isin dc sel" "index df" tc sel']
      by (simp add: isin_def)
    with g sub show ?thesis
      by (auto simp: filter_idx_def data_filtered_def Let_def set_py_set set_intersection
            py_list_def getitem_loc_mask index_loc_mask)
  qed (use sub in \<open>auto simp: filter_idx_def data_filtered_def Let_def set_py_set set_intersection
            py_list_def getitem_loc_mask index_loc_mask\<close>)
qed

theorem intersection_equals_scan_witness:
  "wf_frame tips \<and>
   map_sum id set (filter_idx tips [''Sun''] [''Dinner'']) =
   map_sum id (\<lambda>d. set (index d)) (data_filtered tips [''Sun''] [''Dinner'']) \<and>
   map_sum id set (filter_idx tips [''Sun''] [''Dinner'']) = Inr {1, 2, 4}"
proof -
  have "filter_idx tips [''Sun''] [''Dinner''] = Inr [1, 2, 4]"
    by code_simp
  then have "map_sum id set (filter_idx tips [''Sun''] [''Dinner'']) = Inr {1, 2, 4}"
    by simp
  with intersection_equals_scan [OF wf_tips, of "[''Sun'']" "[''Dinner'']"] wf_tips
  show ?thesis by simp
qed

section \<open>C2: default widget states restrict nothing\<close>

text \<open>
  Claim C2. With both selectize inputs at their default (nothing selected),
  \<^verbatim>\<open>filter_idx\<close> returns all row labels of the table, for every table. A filter at its
  default contributes no constraint: with the day filter at default the result is that of
  the time block alone, and with the time filter at default that of the day block alone.
  \<^verbatim>\<open>filter_idx\<close> takes no override map, so the result is the same under every one.
\<close>

theorem default_state_is_unconstrained:
  "map_sum id set (filter_idx df [] []) = Inr (set (index df)) \<and>
   filter_idx df [] ft =
     and_then (narrow df ''time'' ft (py_set (index df))) (\<lambda>idx. Inr (py_list idx)) \<and>
   filter_idx df fd [] =
     and_then (narrow df ''day'' fd (py_set (index df))) (\<lambda>idx. Inr (py_list idx))"
  by (simp add: filter_idx_narrow narrow_def and_then_def set_py_set py_list_def
        split: sum.splits)

theorem default_state_is_unconstrained_witness:
  "map_sum id set (filter_idx tips [] []) = Inr {0, 1, 2, 3, 4} \<and>
   map_sum id set (filter_idx tips [] [''Lunch'']) = Inr {0} \<and>
   map_sum id set (filter_idx tips [''Fri''] []) = Inr {3}"
proof -
  have "narrow tips ''time'' [''Lunch''] (py_set (index tips)) = Inr [0]"
    by code_simp
  moreover have "narrow tips ''day'' [''Fri''] (py_set (index tips)) = Inr [3]"
    by code_simp
  moreover have "set (index tips) = {0, 1, 2, 3, 4}"
    by (simp add: tips_def)
  ultimately show ?thesis
    using default_state_is_unconstrained [of tips "[''Lunch'']" "[''Fri'']"]
    by (simp add: and_then_def py_list_def)
qed

section \<open>C3: the scenario on the five-row table\<close>



section \<open>C4: reset\<close>

text \<open>
  Claim C4. After \<^verbatim>\<open>resetAll()\<close> the result index of a facade is the full set of row
  labels of its table, and it is the result index of a facade freshly created from the same
  table and override map, whatever the predicates of the filter kinds are.
\<close>

theorem reset_all_restores_full_index:
  "filterIndex m (resetAll f) = set (index (f_table f)) \<and>
   filterIndex m (resetAll f) = filterIndex m (create (f_table f) (f_overrides f))"
  by (simp add: filterIndex_def resetAll_def combine_def combine_default create_def Let_def)

theorem reset_all_restores_full_index_witness:
  "filterIndex (\<lambda>k v st. v \<in> set st)
     (resetAll (set_state (create tips override_040) ''tip'' (Some [FloatV 3, FloatV 4]))) =
   {0, 1, 2, 3, 4}"
  using reset_all_restores_full_index [of "\<lambda>k v st. v \<in> set st"
      "set_state (create tips override_040) ''tip'' (Some [FloatV 3, FloatV 4])"]
  by (simp add: set_state_def create_def Let_def tips_def)

section \<open>C5: a disabled column\<close>

text \<open>
  Claim C5. For a column that the override map disables, the result index of the facade is
  the same for any two widget states of that column, default or not, whatever the states of
  the other columns are.
\<close>

theorem disabled_column_state_irrelevant:
  assumes "map_of overrides c = Some Disable"
  shows "filterIndex m (set_state ((create t overrides)\<lparr>states := st\<rparr>) c s1) =
         filterIndex m (set_state ((create t overrides)\<lparr>states := st\<rparr>) c s2)"
proof -
  have "f_table ((create t overrides)\<lparr>states := st'\<rparr>) = t" for st'
    by (simp add: create_def Let_def)
  then show ?thesis
    using fold_constrain_cong [of "widgets (create t overrides)" c m t st s1 "set (index t)" s2]
      disabled_no_widget [OF assms, of _ t]
    by (simp add: filterIndex_def set_state_def combine_def)
qed

theorem disabled_column_state_irrelevant_witness:
  "map_of override_0010_030 ''total_bill'' = Some Disable \<and>
   filterIndex (\<lambda>k v st. v \<in> set st)
     (set_state ((create tips override_0010_030)\<lparr>states := [''day'' \<mapsto> [StrV ''Sun'']]\<rparr>)
        ''total_bill'' (Some [FloatV 20, FloatV 25])) =
   filterIndex (\<lambda>k v st. v \<in> set st)
     (set_state ((create tips override_0010_030)\<lparr>states := [''day'' \<mapsto> [StrV ''Sun'']]\<rparr>)
        ''total_bill'' None)"
proof -
  have h: "map_of override_0010_030 ''total_bill'' = Some Disable"
    by (simp add: override_0010_030_def)
  from disabled_column_state_irrelevant [OF h] h show ?thesis by simp
qed

section \<open>C6: the order of the narrowing steps\<close>

text \<open>
  Claim C6. \<^verbatim>\<open>filter_idx\<close> is the day block followed by the time block, and for any
  two columns and any running set, narrowing by the first and then the second column gives
  the same set of labels as narrowing by the second and then the first; either both orders
  raise (a column read by an active filter is missing) or both return that set.
\<close>

theorem narrowing_order_irrelevant:
  "filter_idx df fd ft =
     and_then (and_then (narrow df ''day'' fd (py_set (index df))) (narrow df ''time'' ft))
       (\<lambda>idx. Inr (py_list idx)) \<and>
   map_sum (\<lambda>e. ()) set (and_then (narrow df a sa idx) (narrow df b sb)) =
   map_sum (\<lambda>e. ()) set (and_then (narrow df b sb idx) (narrow df a sa))"
  by (simp add: filter_idx_narrow narrow_commute) (simp add: and_then_def split: sum.splits)

theorem narrowing_order_irrelevant_witness:
  "map_sum id set (filter_idx df_tips [''Sun''] [''Dinner'']) = Inr {0, 5} \<and>
   map_sum (\<lambda>e. ()) set
     (and_then (narrow df_tips ''day'' [''Sun''] (py_set (index df_tips)))
        (narrow df_tips ''time'' [''Dinner''])) = Inr {0, 5} \<and>
   map_sum (\<lambda>e. ()) set
     (and_then (narrow df_tips ''time'' [''Dinner''] (py_set (index df_tips)))
        (narrow df_tips ''day'' [''Sun''])) = Inr {0, 5}"
proof -
  have "and_then (narrow df_tips ''day'' [''Sun''] (py_set (index df_tips)))
     (narrow df_tips ''time'' [''Dinner'']) = Inr [0, 5]"
    by code_simp
  then show ?thesis
    using narrowing_order_irrelevant [of df_tips "[''Sun'']" "[''Dinner'']" "''day''"
        "[''Sun'']" "py_set (index df_tips)" "''time''" "[''Dinner'']"]
    by (simp add: and_then_def py_list_def)
qed

section \<open>C7: an empty result\<close>



section \<open>C8: the table is only read\<close>



section \<open>C9: the returned list\<close>



section \<open>C10: one more active filter\<close>

text \<open>
  Claim C10. Whenever \<^verbatim>\<open>filter_idx\<close> returns with the day and the time selection, it
  also returns with the day selection alone, and the labels of the first result are among
  those of the second, which are among the row labels of the table.
\<close>

theorem more_filters_fewer_rows:
  assumes "filter_idx df fd ft = Inr xs"
  shows "\<exists>ys. filter_idx df fd [] = Inr ys \<and> set xs \<subseteq> set ys \<and> set ys \<subseteq> set (index df)"
  using assms
  by (auto simp: filter_idx_def Let_def py_list_def set_py_set set_intersection
        split: if_splits sum.splits)

theorem more_filters_fewer_rows_witness:
  "\<exists>xs ys. filter_idx df_tips [''Sun''] [''Lunch''] = Inr xs \<and> set xs = {2, 4} \<and>
      filter_idx df_tips [''Sun''] [] = Inr ys \<and> set xs \<subseteq> set ys \<and>
      set ys \<subseteq> set (index df_tips)"
proof -
  have a: "filter_idx df_tips [''Sun''] [''Lunch''] = Inr [2, 4]" by code_simp
  from more_filters_fewer_rows [OF a] a show ?thesis by auto
qed

end
